theory Spec2Isabelle
  imports Main
begin

section \<open>The launcher of \<open>main/run.go\<close>\<close>

text \<open>
  A shallow embedding of \<^verbatim>\<open>main/run.go\<close>: the resolution of the configuration files
  (\<^verbatim>\<open>getConfigFilePath\<close>, \<^verbatim>\<open>readConfDir\<close>, \<^verbatim>\<open>getRegepxByFormat\<close>) and the life cycle of
  the process (\<^verbatim>\<open>executeRun\<close>, \<^verbatim>\<open>dumpConfig\<close>, \<^verbatim>\<open>startXray\<close>, \<^verbatim>\<open>background\<close>).

  The operating system and the proxy engine are explicit arguments: the record \<open>env\<close>
  holds what the calls into them answer, the record \<open>flags\<close> the package-level
  variables set from the command line. The calls into the engine, the system proxy, the
  signal package and the tray are recorded in a trace, in the order in which a run makes
  them. Console output (\<^verbatim>\<open>fmt.Println\<close>, \<^verbatim>\<open>log.Println\<close>, \<^verbatim>\<open>printVersion\<close>), the logger
  setting of dump mode, \<^verbatim>\<open>time.Sleep\<close>, the hints to the garbage collector and the locking
  of the thread are left out: they decide neither a call of the trace nor the exit code.
\<close>

subsection \<open>Go library functions on strings and paths\<close>

text \<open>
  \<^verbatim>\<open>strings.ToLower\<close> on the bytes of the string: the letters \<^verbatim>\<open>A\<close> to \<^verbatim>\<open>Z\<close> are mapped to
  \<^verbatim>\<open>a\<close> to \<^verbatim>\<open>z\<close>. (On text outside ASCII the library also folds other letters; none of
  them is folded to a letter of \<^verbatim>\<open>json\<close>, \<^verbatim>\<open>toml\<close>, \<^verbatim>\<open>yaml\<close> or \<^verbatim>\<open>yml\<close>, the only words the
  result is compared with.)
\<close>

definition lower_char :: "char \<Rightarrow> char" where
  "lower_char c =
     (case map_of (zip ''ABCDEFGHIJKLMNOPQRSTUVWXYZ'' ''abcdefghijklmnopqrstuvwxyz'') c of
        None \<Rightarrow> c
      | Some d \<Rightarrow> d)"

definition ToLower :: "string \<Rightarrow> string" where
  "ToLower s = map lower_char s"

text \<open>
  \<^verbatim>\<open>path.Clean\<close> and \<^verbatim>\<open>filepath.Clean\<close> with the separator \<^verbatim>\<open>/\<close>: the path is cut at the
  slashes; empty elements and \<^verbatim>\<open>.\<close> are dropped; \<^verbatim>\<open>..\<close> removes the element before it,
  is dropped at the root and is kept at the start of a relative path. The empty result
  is \<^verbatim>\<open>.\<close>.
\<close>

fun split_slash :: "string \<Rightarrow> string list" where
  "split_slash [] = [[]]"
| "split_slash (c # cs) =
     (if c = CHR ''/'' then [] # split_slash cs
      else (case split_slash cs of
              [] \<Rightarrow> [[c]]
            | x # xs \<Rightarrow> (c # x) # xs))"

fun join_slash :: "string list \<Rightarrow> string" where
  "join_slash [] = []"
| "join_slash [x] = x"
| "join_slash (x # y # ys) = x @ CHR ''/'' # join_slash (y # ys)"

fun clean_elems :: "bool \<Rightarrow> string list \<Rightarrow> string list \<Rightarrow> string list" where
  "clean_elems rooted out [] = rev out"
| "clean_elems rooted out (x # xs) =
     (if x = [] \<or> x = ''.'' then clean_elems rooted out xs
      else if x = ''..'' then
        (case out of
           [] \<Rightarrow> if rooted then clean_elems rooted out xs
                 else clean_elems rooted (x # out) xs
         | t # ts \<Rightarrow> if t = ''..'' then clean_elems rooted (x # out) xs
                     else clean_elems rooted ts xs)
      else clean_elems rooted (x # out) xs)"

definition IsAbs :: "string \<Rightarrow> bool" where
  "IsAbs p = (case p of [] \<Rightarrow> False | c # _ \<Rightarrow> c = CHR ''/'')"

definition Clean :: "string \<Rightarrow> string" where
  "Clean p =
     (if p = [] then ''.''
      else
        (let body = join_slash (clean_elems (IsAbs p) [] (split_slash p))
         in if IsAbs p then CHR ''/'' # body
            else if body = [] then ''.'' else body))"

text \<open>
  \<^verbatim>\<open>path.Join\<close> and \<^verbatim>\<open>filepath.Join\<close>: the elements from the first non-empty one on are
  joined with slashes and cleaned; with no non-empty element the result is empty.
\<close>

definition Join :: "string list \<Rightarrow> string" where
  "Join elems =
     (case dropWhile (\<lambda>e. e = []) elems of
        [] \<Rightarrow> []
      | es \<Rightarrow> Clean (join_slash es))"

subsection \<open>Regular expressions\<close>

text \<open>
  The fragment of Go's \<^verbatim>\<open>regexp\<close> syntax that the four patterns of
  \<^verbatim>\<open>getRegepxByFormat\<close> use: a literal string, the dot (without the flag \<^verbatim>\<open>s\<close>: any
  character but the line feed), alternation, concatenation and \<^verbatim>\<open>+\<close>. \<open>NoMatch\<close> and
  \<open>Star\<close> are there for the derivatives.
\<close>

datatype regexp =
    NoMatch
  | Lit string
  | AnyCharNotNL
  | Alternate regexp regexp
  | Concat regexp regexp
  | Star regexp
  | Plus regexp

fun nullable :: "regexp \<Rightarrow> bool" where
  "nullable NoMatch = False"
| "nullable (Lit s) = (s = [])"
| "nullable AnyCharNotNL = False"
| "nullable (Alternate r s) = (nullable r \<or> nullable s)"
| "nullable (Concat r s) = (nullable r \<and> nullable s)"
| "nullable (Star r) = True"
| "nullable (Plus r) = nullable r"

fun deriv :: "char \<Rightarrow> regexp \<Rightarrow> regexp" where
  "deriv c NoMatch = NoMatch"
| "deriv c (Lit s) =
     (case s of [] \<Rightarrow> NoMatch | d # ds \<Rightarrow> if c = d then Lit ds else NoMatch)"
| "deriv c AnyCharNotNL = (if c = CHR 0x0A then NoMatch else Lit [])"
| "deriv c (Alternate r s) = Alternate (deriv c r) (deriv c s)"
| "deriv c (Concat r s) =
     (if nullable r then Alternate (Concat (deriv c r) s) (deriv c s)
      else Concat (deriv c r) s)"
| "deriv c (Star r) = Concat (deriv c r) (Star r)"
| "deriv c (Plus r) = Concat (deriv c r) (Star r)"

text \<open>
  \<^verbatim>\<open>regexp.MatchString\<close> for a pattern of the form \<^verbatim>\<open>^r$\<close>: without the flag \<^verbatim>\<open>m\<close> the two
  anchors stand for the beginning and the end of the text, so the whole string has to
  match \<open>r\<close>. The four patterns compile, so the error result of \<^verbatim>\<open>MatchString\<close> (and the
  \<^verbatim>\<open>log.Fatalln\<close> of \<^verbatim>\<open>readConfDir\<close> behind it) cannot occur.
\<close>

fun MatchString :: "regexp \<Rightarrow> string \<Rightarrow> bool" where
  "MatchString r [] = nullable r"
| "MatchString r (c # cs) = MatchString (deriv c r) cs"

subsection \<open>The command line and the environment\<close>

text \<open>The package-level variables of \<^verbatim>\<open>run.go\<close>, set from the command line.\<close>

record flags =
  configFiles :: "string list"
  configDir :: string
  dump :: bool
  test :: bool
  format :: string
  sysProxyPort :: string
  sysProxyDevice :: string

datatype file_info = FileInfo (IsDir: bool)

text \<open>The server handle of the engine: all the launcher sees of it is whether \<^verbatim>\<open>Start\<close>
  returns an error.\<close>

datatype server = Server (start_fails: bool)

type_synonym config = string

text \<open>
  What the operating system and the engine answer. \<open>None\<close> stands for a call that
  returns an error.
\<close>

record env =
  goos :: string
  Stat :: "string \<Rightarrow> file_info option"
  ReadDir :: "string \<Rightarrow> string list option"
  Getwd :: "string option"
  UserHomeDir :: "string option"
  GetConfDirPath :: string
  GetConfigurationPath :: string
  GetFormatByExtension :: "string \<Rightarrow> string"
  GetMergedConfig :: "string list \<Rightarrow> string option"
  LoadConfig :: "string \<Rightarrow> string list \<Rightarrow> config option"
  New :: "config \<Rightarrow> server option"

text \<open>\<^verbatim>\<open>os.Exit\<close>, also as called by \<^verbatim>\<open>log.Fatalln\<close> (with code 1).\<close>

datatype exit = Exit int

subsection \<open>Resolution of the configuration files\<close>

definition DefaultConfigFileLocation :: string where
  "DefaultConfigFileLocation = ''~/.xray/config.json''"

definition fileExists :: "env \<Rightarrow> string \<Rightarrow> bool" where
  "fileExists e file =
     (case Stat e file of None \<Rightarrow> False | Some info \<Rightarrow> \<not> IsDir info)"

definition dirExists :: "env \<Rightarrow> string \<Rightarrow> bool" where
  "dirExists e file =
     (if file = [] then False
      else (case Stat e file of None \<Rightarrow> False | Some info \<Rightarrow> IsDir info))"

text \<open>
  The patterns, in the order of the source:
  \<^verbatim>\<open>^.+\.(json|jsonc)$\<close>, \<^verbatim>\<open>^.+\.toml$\<close>, \<^verbatim>\<open>^.+\.(yaml|yml)$\<close> and
  \<^verbatim>\<open>^.+\.(json|jsonc|toml|yaml|yml)$\<close>.
\<close>

definition getRegepxByFormat :: "flags \<Rightarrow> regexp" where
  "getRegepxByFormat fl =
     (let f = ToLower (format fl) in
      if f = ''json'' then
        Concat (Plus AnyCharNotNL) (Concat (Lit ''.'')
          (Alternate (Lit ''json'') (Lit ''jsonc'')))
      else if f = ''toml'' then
        Concat (Plus AnyCharNotNL) (Concat (Lit ''.'') (Lit ''toml''))
      else if f = ''yaml'' \<or> f = ''yml'' then
        Concat (Plus AnyCharNotNL) (Concat (Lit ''.'')
          (Alternate (Lit ''yaml'') (Lit ''yml'')))
      else
        Concat (Plus AnyCharNotNL) (Concat (Lit ''.'')
          (Alternate (Lit ''json'') (Alternate (Lit ''jsonc'') (Alternate (Lit ''toml'')
            (Alternate (Lit ''yaml'') (Lit ''yml'')))))))"

text \<open>
  The loop of \<^verbatim>\<open>readConfDir\<close> over the directory entries: the argument \<open>cfs\<close> is the
  variable \<^verbatim>\<open>configFiles\<close>, to which \<^verbatim>\<open>configFiles.Set\<close> appends.

  Modelled from the spec: \<^verbatim>\<open>cmdarg.Arg.Set\<close> is not among the sources; by the
  specification the scan results are appended to the files already given.
\<close>

fun scan_entries :: "flags \<Rightarrow> string \<Rightarrow> string list \<Rightarrow> string list \<Rightarrow> string list" where
  "scan_entries fl dirPath cfs [] = cfs"
| "scan_entries fl dirPath cfs (f # fs) =
     (if MatchString (getRegepxByFormat fl) f
      then scan_entries fl dirPath (cfs @ [Join [dirPath, f]]) fs
      else scan_entries fl dirPath cfs fs)"

definition readConfDir :: "env \<Rightarrow> flags \<Rightarrow> string \<Rightarrow> string list \<Rightarrow> exit + string list" where
  "readConfDir e fl dirPath cfs =
     (case ReadDir e dirPath of
        None \<Rightarrow> Inl (Exit 1)
      | Some confs \<Rightarrow> Inr (scan_entries fl dirPath cfs confs))"

text \<open>\<^verbatim>\<open>filepath.Abs\<close>: an absolute path is cleaned, a relative one is joined to the
  working directory, and the call fails when that is not known.\<close>

definition Abs :: "env \<Rightarrow> string \<Rightarrow> string option" where
  "Abs e p =
     (if IsAbs p then Some (Clean p)
      else (case Getwd e of None \<Rightarrow> None | Some wd \<Rightarrow> Some (Join [wd, p])))"

text \<open>The last step of \<^verbatim>\<open>getConfigFilePath\<close>: the default location under the home
  directory.\<close>

definition home_default :: "env \<Rightarrow> string list" where
  "home_default e =
     (case UserHomeDir e of
        None \<Rightarrow> []
      | Some homeDir \<Rightarrow>
          (let relativePath =
                 (if length DefaultConfigFileLocation > 0
                     \<and> hd DefaultConfigFileLocation = CHR ''~''
                  then Join [homeDir, tl DefaultConfigFileLocation] else [])
           in (case Abs e relativePath of
                 None \<Rightarrow> []
               | Some absolutePath \<Rightarrow> [absolutePath])))"

text \<open>The fourth step of \<^verbatim>\<open>getConfigFilePath\<close>: \<^verbatim>\<open>config.json\<close> in the working
  directory, when that directory is known and the file exists.\<close>

definition cwd_default :: "env \<Rightarrow> string option" where
  "cwd_default e =
     (case Getwd e of
        None \<Rightarrow> None
      | Some workingDir \<Rightarrow>
          (let configFile = Join [workingDir, ''config.json'']
           in if fileExists e configFile then Some configFile else None))"

text \<open>The steps of \<^verbatim>\<open>getConfigFilePath\<close> after the directory scan, on the value \<open>cfs\<close> of
  \<^verbatim>\<open>configFiles\<close> at that point.\<close>

definition after_scan :: "env \<Rightarrow> string list \<Rightarrow> string list" where
  "after_scan e cfs =
     (if length cfs > 0 then cfs
      else (case cwd_default e of
              Some configFile \<Rightarrow> [configFile]
            | None \<Rightarrow>
                if fileExists e (GetConfigurationPath e) then [GetConfigurationPath e]
                else home_default e))"

text \<open>
  \<^verbatim>\<open>getConfigFilePath\<close>. \<open>Inl (Exit 1)\<close> is the \<^verbatim>\<open>log.Fatalln\<close> of \<^verbatim>\<open>readConfDir\<close>. The flag
  \<open>verbose\<close> only selects log output. The function runs once in a process, so the value
  it leaves in \<^verbatim>\<open>configFiles\<close> is not read again and is not returned.
\<close>

definition getConfigFilePath :: "env \<Rightarrow> flags \<Rightarrow> bool \<Rightarrow> exit + string list" where
  "getConfigFilePath e fl verbose =
     (case (if dirExists e (configDir fl)
            then readConfDir e fl (configDir fl) (configFiles fl)
            else if dirExists e (GetConfDirPath e)
            then readConfDir e fl (GetConfDirPath e) (configFiles fl)
            else Inr (configFiles fl)) of
        Inl x \<Rightarrow> Inl x
      | Inr cfs \<Rightarrow> Inr (after_scan e cfs))"

definition getConfigFormat :: "env \<Rightarrow> flags \<Rightarrow> string" where
  "getConfigFormat e fl =
     (let f = GetFormatByExtension e (format fl) in if f = [] then ''auto'' else f)"

subsection \<open>The life cycle\<close>

text \<open>
  The calls that leave \<^verbatim>\<open>run.go\<close>, in the order in which a run makes them.
  \<open>EnableSysProxy\<close> and \<open>DisableSysProxy\<close> stand for one call of \<^verbatim>\<open>enableSysProxy\<close> and
  \<^verbatim>\<open>disableSysProxy\<close> (each runs \<^verbatim>\<open>networksetup\<close> and only prints a failure); \<open>CloseEnd\<close>
  is \<^verbatim>\<open>close(end)\<close> and \<open>RecvEnd\<close> the completion of \<^verbatim>\<open><-end\<close> in the main flow.
\<close>

datatype icon = IconData | IconOne

datatype call =
    EnableSysProxy string string
  | DisableSysProxy string
  | CallGetMergedConfig "string list"
  | CallLoadConfig string "string list"
  | CallNew config
  | ServerStart
  | ServerClose
  | SignalNotify
  | SystrayRun
  | SetTitle string
  | SetIcon icon
  | AddMenuItem string
  | ItemSetTitle string
  | CloseEnd
  | RecvEnd

text \<open>What reaches the two listeners while the server runs.\<close>

datatype event = OsSignal | QuitClicked | ToggleClicked

text \<open>How a run ends: \<^verbatim>\<open>os.Exit\<close> with a code, the return of \<^verbatim>\<open>executeRun\<close> (after its
  deferred calls), or the main flow still blocked on \<^verbatim>\<open><-end\<close> when the events are used
  up.\<close>

datatype outcome = Exited int | Returned | Waiting

record run =
  trace :: "call list"
  ending :: outcome

datatype error = LoadFailed | NewFailed

text \<open>\<^verbatim>\<open>dumpConfig\<close>: the code it returns, or the exit of \<^verbatim>\<open>log.Fatalln\<close> in the directory
  scan.\<close>

definition dumpConfig :: "env \<Rightarrow> flags \<Rightarrow> call list \<times> (exit + int)" where
  "dumpConfig e fl =
     (case getConfigFilePath e fl False of
        Inl x \<Rightarrow> ([], Inl x)
      | Inr files \<Rightarrow>
          (case GetMergedConfig e files of
             None \<Rightarrow> ([CallGetMergedConfig files], Inr 23)
           | Some config \<Rightarrow> ([CallGetMergedConfig files], Inr 0)))"

definition startXray :: "env \<Rightarrow> flags \<Rightarrow> call list \<times> (exit + error + server)" where
  "startXray e fl =
     (case getConfigFilePath e fl True of
        Inl x \<Rightarrow> ([], Inl x)
      | Inr files \<Rightarrow>
          (case LoadConfig e (getConfigFormat e fl) files of
             None \<Rightarrow> ([CallLoadConfig (getConfigFormat e fl) files], Inr (Inl LoadFailed))
           | Some c \<Rightarrow>
               (case New e c of
                  None \<Rightarrow>
                    ([CallLoadConfig (getConfigFormat e fl) files, CallNew c],
                     Inr (Inl NewFailed))
                | Some server \<Rightarrow>
                    ([CallLoadConfig (getConfigFormat e fl) files, CallNew c],
                     Inr (Inr server)))))"

text \<open>The branch of \<^verbatim>\<open>background\<close> for a click on the toggle item: the calls it makes and
  the new value of \<^verbatim>\<open>sysProxyState\<close>.\<close>

definition toggle :: "flags \<Rightarrow> int \<Rightarrow> call list \<times> int" where
  "toggle fl sysProxyState =
     (if sysProxyState = 1
      then ([DisableSysProxy (sysProxyDevice fl), SetIcon IconOne, ItemSetTitle ''Enable''], 0)
      else ([EnableSysProxy (sysProxyDevice fl) (sysProxyPort fl), SetIcon IconData,
             ItemSetTitle ''Disable''], 1))"

text \<open>
  The two listeners on the sequence of events that arrive once both are armed, each
  event handled in one piece and in the order given: the signal goroutine closes \<^verbatim>\<open>end\<close>
  at the first signal; the loop of \<^verbatim>\<open>background\<close> leaves the process with \<^verbatim>\<open>os.Exit(0)\<close> at a
  click on quit and toggles at a click on the toggle item. Nothing is handled after the
  event that ends the run, so the interleaving of a late click with the deferred calls of
  the main flow is outside the model.
\<close>

datatype waited = EndClosed | ProcessExit int | Pending

fun listeners :: "flags \<Rightarrow> int \<Rightarrow> event list \<Rightarrow> call list \<times> waited" where
  "listeners fl sysProxyState [] = ([], Pending)"
| "listeners fl sysProxyState (OsSignal # evs) = ([CloseEnd], EndClosed)"
| "listeners fl sysProxyState (QuitClicked # evs) = ([], ProcessExit 0)"
| "listeners fl sysProxyState (ToggleClicked # evs) =
     (case toggle fl sysProxyState of
        (cs, st) \<Rightarrow> (case listeners fl st evs of (ds, w) \<Rightarrow> (cs @ ds, w)))"

text \<open>The calls that arm the listeners: \<^verbatim>\<open>signal.Notify\<close>, then \<^verbatim>\<open>systray.Run\<close> with
  \<^verbatim>\<open>onReady\<close>, which starts \<^verbatim>\<open>background\<close> with \<^verbatim>\<open>sysProxyState\<close> 1.\<close>

definition arm :: "call list" where
  "arm = [SignalNotify, SystrayRun, SetTitle ''xray'', SetIcon IconData,
          AddMenuItem ''Disable'', AddMenuItem ''Quit'']"

text \<open>
  The part of \<^verbatim>\<open>executeRun\<close> after the successful \<^verbatim>\<open>Start\<close>. \<open>deferred\<close> is the stack
  of deferred calls, the last one registered first: it runs when the function returns,
  and \<^verbatim>\<open>os.Exit\<close> drops it.
\<close>

definition serve :: "flags \<Rightarrow> call list \<Rightarrow> event list \<Rightarrow> run" where
  "serve fl deferred evs =
     (case listeners fl 1 evs of
        (cs, Pending) \<Rightarrow> \<lparr>trace = arm @ cs, ending = Waiting\<rparr>
      | (cs, ProcessExit code) \<Rightarrow> \<lparr>trace = arm @ cs, ending = Exited code\<rparr>
      | (cs, EndClosed) \<Rightarrow> \<lparr>trace = arm @ cs @ [RecvEnd] @ deferred, ending = Returned\<rparr>)"

definition prepend :: "call list \<Rightarrow> run \<Rightarrow> run" where
  "prepend cs r = r\<lparr>trace := cs @ trace r\<rparr>"

text \<open>
  The first lines of \<^verbatim>\<open>executeRun\<close>: on \<^verbatim>\<open>darwin\<close> the system proxy is enabled and its
  disabling is deferred; elsewhere nothing is done.
\<close>

definition entry_calls :: "env \<Rightarrow> flags \<Rightarrow> call list" where
  "entry_calls e fl =
     (if goos e = ''darwin''
      then [EnableSysProxy (sysProxyDevice fl) (sysProxyPort fl)] else [])"

definition entry_deferred :: "env \<Rightarrow> flags \<Rightarrow> call list" where
  "entry_deferred e fl =
     (if goos e = ''darwin'' then [DisableSysProxy (sysProxyDevice fl)] else [])"

definition executeRun :: "env \<Rightarrow> flags \<Rightarrow> event list \<Rightarrow> run" where
  "executeRun e fl evs =
     (let enabled = entry_calls e fl;
          deferred = entry_deferred e fl
      in if dump fl then
           (case dumpConfig e fl of
              (cs, Inl (Exit code)) \<Rightarrow> \<lparr>trace = enabled @ cs, ending = Exited code\<rparr>
            | (cs, Inr errCode) \<Rightarrow> \<lparr>trace = enabled @ cs, ending = Exited errCode\<rparr>)
         else
           (case startXray e fl of
              (cs, Inl (Exit code)) \<Rightarrow> \<lparr>trace = enabled @ cs, ending = Exited code\<rparr>
            | (cs, Inr (Inl err)) \<Rightarrow> \<lparr>trace = enabled @ cs, ending = Exited 23\<rparr>
            | (cs, Inr (Inr server)) \<Rightarrow>
                if test fl then \<lparr>trace = enabled @ cs, ending = Exited 0\<rparr>
                else if start_fails server
                then \<lparr>trace = enabled @ cs @ [ServerStart], ending = Exited (- 1)\<rparr>
                else prepend (enabled @ cs @ [ServerStart])
                       (serve fl (ServerClose # deferred) evs)))"

subsection \<open>The extension table of the specification\<close>

text \<open>
  The table of section 4.2 of the specification, in its words: json selects \<^verbatim>\<open>*.json\<close> and
  \<^verbatim>\<open>*.jsonc\<close>, toml selects \<^verbatim>\<open>*.toml\<close>, yaml selects \<^verbatim>\<open>*.yaml\<close> and \<^verbatim>\<open>*.yml\<close>, auto the union
  of these. It is compared with the patterns of \<^verbatim>\<open>getRegepxByFormat\<close> below.
\<close>

datatype format_tag = Json | Toml | Yaml | Auto

fun spec_extensions :: "format_tag \<Rightarrow> string list" where
  "spec_extensions Json = [''json'', ''jsonc'']"
| "spec_extensions Toml = [''toml'']"
| "spec_extensions Yaml = [''yaml'', ''yml'']"
| "spec_extensions Auto = [''json'', ''jsonc''] @ [''toml''] @ [''yaml'', ''yml'']"

text \<open>The case of the \<^verbatim>\<open>switch\<close> in \<^verbatim>\<open>getRegepxByFormat\<close> that a value of the format flag
  takes: the value in lower case is compared with the case labels, and every other value
  takes the default case with \<^verbatim>\<open>auto\<close>.\<close>

definition selected_format :: "flags \<Rightarrow> format_tag" where
  "selected_format fl =
     (let f = ToLower (format fl) in
      if f = ''json'' then Json
      else if f = ''toml'' then Toml
      else if f = ''yaml'' \<or> f = ''yml'' then Yaml
      else Auto)"

subsection \<open>Example inputs\<close>

text \<open>A machine with no configuration directory and no configuration file, on which the
  engine accepts every configuration and the server starts.\<close>

definition plain_env :: env where
  "plain_env =
     \<lparr>goos = ''darwin'', Stat = (\<lambda>p. None), ReadDir = (\<lambda>p. None), Getwd = Some ''/srv'',
      UserHomeDir = Some ''/home/u'', GetConfDirPath = [], GetConfigurationPath = [],
      GetFormatByExtension = (\<lambda>f. f), GetMergedConfig = (\<lambda>fs. Some ''{}''),
      LoadConfig = (\<lambda>f fs. Some ''cfg''), New = (\<lambda>c. Some (Server False))\<rparr>"

text \<open>The command line \<^verbatim>\<open>run -c a.json\<close> with the defaults of the other flags.\<close>

definition plain_flags :: flags where
  "plain_flags =
     \<lparr>configFiles = [''a.json''], configDir = [], dump = False, test = False,
      format = ''auto'', sysProxyPort = ''19800'', sysProxyDevice = ''Wi-Fi''\<rparr>"

text \<open>The directory \<^verbatim>\<open>/etc/xray\<close> exists; whether it can be listed is the second
  argument.\<close>

definition dir_env :: "string list option \<Rightarrow> env" where
  "dir_env listing =
     plain_env\<lparr>Stat := (\<lambda>p. if p = ''/etc/xray'' then Some (FileInfo True) else None),
               ReadDir := (\<lambda>p. if p = ''/etc/xray'' then listing else None)\<rparr>"

section \<open>Properties\<close>

subsection \<open>The matcher\<close>

text \<open>What each construct of the patterns matches, by induction on the string.\<close>

lemma match_NoMatch: "\<not> MatchString NoMatch w"
  by (induction w) auto

lemma match_Lit: "MatchString (Lit s) w \<longleftrightarrow> w = s"
  by (induction w arbitrary: s) (auto split: list.splits simp: match_NoMatch)

lemma match_Alternate:
  "MatchString (Alternate r s) w \<longleftrightarrow> MatchString r w \<or> MatchString s w"
  by (induction w arbitrary: r s) auto

lemma match_Concat:
  "MatchString (Concat r s) w \<longleftrightarrow> (\<exists>u v. w = u @ v \<and> MatchString r u \<and> MatchString s v)"
proof (induction w arbitrary: r s)
  case Nil
  then show ?case by simp
next
  case (Cons c cs)
  have split: "(\<exists>u v. c # cs = u @ v \<and> MatchString r u \<and> MatchString s v) \<longleftrightarrow>
      (nullable r \<and> MatchString s (c # cs)) \<or>
      (\<exists>u v. cs = u @ v \<and> MatchString (deriv c r) u \<and> MatchString s v)"
    (is "?L \<longleftrightarrow> ?A \<or> ?B")
  proof
    assume ?L
    then obtain u v where uv: "c # cs = u @ v" "MatchString r u" "MatchString s v" by blast
    show "?A \<or> ?B"
    proof (cases u)
      case Nil
      with uv show ?thesis by simp
    next
      case (Cons d ds)
      with uv have "cs = ds @ v" "MatchString (deriv c r) ds" by auto
      with uv show ?thesis by blast
    qed
  next
    assume "?A \<or> ?B"
    then show ?L
    proof
      assume ?A
      then have "c # cs = [] @ (c # cs) \<and> MatchString r [] \<and> MatchString s (c # cs)" by simp
      then show ?L by blast
    next
      assume ?B
      then obtain u v where "cs = u @ v" "MatchString (deriv c r) u" "MatchString s v" by blast
      then have "c # cs = (c # u) @ v \<and> MatchString r (c # u) \<and> MatchString s v" by simp
      then show ?L by blast
    qed
  qed
  show ?case
    using split by (auto simp: Cons.IH match_Alternate)
qed

lemma match_Star_dot: "MatchString (Star AnyCharNotNL) w \<longleftrightarrow> CHR 0x0A \<notin> set w"
  by (induction w) (auto simp: match_Concat match_Lit match_NoMatch)

lemma match_Plus_dot:
  "MatchString (Plus AnyCharNotNL) w \<longleftrightarrow> w \<noteq> [] \<and> CHR 0x0A \<notin> set w"
  by (cases w) (auto simp: match_Concat match_Lit match_NoMatch match_Star_dot)

lemma match_stem_ext:
  "MatchString (Concat (Plus AnyCharNotNL) (Concat (Lit ''.'') r)) w \<longleftrightarrow>
     (\<exists>stem ext. w = stem @ ''.'' @ ext \<and> stem \<noteq> [] \<and> CHR 0x0A \<notin> set stem
        \<and> MatchString r ext)"
  by (simp add: match_Concat match_Plus_dot match_Lit) blast


text \<open>The patterns of \<^verbatim>\<open>getRegepxByFormat\<close> against the table of the specification: a name
  matches when it is a stem, a dot and an extension of the selected row, where the stem
  (the \<^verbatim>\<open>.+\<close> of the pattern) is not empty and has no line feed.\<close>

lemma match_patterns:
  "MatchString (getRegepxByFormat fl) name \<longleftrightarrow>
     (\<exists>stem ext. name = stem @ ''.'' @ ext \<and> stem \<noteq> [] \<and> CHR 0x0A \<notin> set stem
        \<and> ext \<in> set (spec_extensions (selected_format fl)))"
  by (auto simp: getRegepxByFormat_def selected_format_def Let_def match_stem_ext
      match_Alternate match_Lit)

lemma scan_entries_filter:
  "scan_entries fl d cfs names =
     cfs @ map (\<lambda>f. Join [d, f]) (filter (MatchString (getRegepxByFormat fl)) names)"
  by (induction names arbitrary: cfs) auto

subsection \<open>Resolution of the configuration files\<close>

text \<open>
  C7, as amended. With a non-empty list of explicit files and no \<^verbatim>\<open>-confdir\<close> flag,
  \<^verbatim>\<open>getConfigFilePath\<close> returns exactly the explicit list when the configuration directory
  named by the environment does not exist as a directory. When that directory exists and
  can be listed, the result is the explicit list, unchanged and in order, followed by the
  matching entries of that directory.
\<close>

theorem explicit_files_without_confdir:
  "configFiles fl \<noteq> [] \<Longrightarrow> configDir fl = [] \<Longrightarrow>
     (\<not> dirExists e (GetConfDirPath e) \<longrightarrow>
        getConfigFilePath e fl verbose = Inr (configFiles fl))
   \<and> (\<forall>names. dirExists e (GetConfDirPath e) \<and> ReadDir e (GetConfDirPath e) = Some names \<longrightarrow>
        getConfigFilePath e fl verbose =
          Inr (configFiles fl @ map (\<lambda>f. Join [GetConfDirPath e, f])
                 (filter (MatchString (getRegepxByFormat fl)) names)))"
  by (simp add: getConfigFilePath_def dirExists_def after_scan_def readConfDir_def
      scan_entries_filter)

theorem explicit_files_without_confdir_witness:
  "configFiles plain_flags \<noteq> [] \<and> configDir plain_flags = []
   \<and> \<not> dirExists plain_env (GetConfDirPath plain_env)
   \<and> getConfigFilePath plain_env plain_flags True = Inr [''a.json'']
   \<and> dirExists (dir_env (Some [''b.json'', ''c.txt''])\<lparr>GetConfDirPath := ''/etc/xray''\<rparr>)
        ''/etc/xray''
   \<and> getConfigFilePath (dir_env (Some [''b.json'', ''c.txt''])\<lparr>GetConfDirPath := ''/etc/xray''\<rparr>)
        plain_flags True = Inr [''a.json'', ''/etc/xray/b.json'']"
  using explicit_files_without_confdir [of plain_flags plain_env True]
    explicit_files_without_confdir
      [of plain_flags "dir_env (Some [''b.json'', ''c.txt''])\<lparr>GetConfDirPath := ''/etc/xray''\<rparr>" True]
  by (simp add: plain_flags_def plain_env_def dir_env_def dirExists_def
      getRegepxByFormat_def ToLower_def lower_char_def Join_def Clean_def IsAbs_def)

text \<open>
  C7 as stated fails: the explicit list is \<^verbatim>\<open>a.json\<close>, there is no \<^verbatim>\<open>-confdir\<close> flag, and
  the directory \<^verbatim>\<open>/etc/xray\<close> named by the environment holds \<^verbatim>\<open>b.json\<close>; the result has two
  files.
\<close>

theorem explicit_files_extended_by_env_confdir:
  "configFiles plain_flags \<noteq> [] \<and> configDir plain_flags = []
   \<and> getConfigFilePath (dir_env (Some [''b.json''])\<lparr>GetConfDirPath := ''/etc/xray''\<rparr>)
        plain_flags True = Inr [''a.json'', ''/etc/xray/b.json'']
   \<and> getConfigFilePath (dir_env (Some [''b.json''])\<lparr>GetConfDirPath := ''/etc/xray''\<rparr>)
        plain_flags True \<noteq> Inr (configFiles plain_flags)"
  by (simp add: plain_flags_def plain_env_def dir_env_def dirExists_def
      getConfigFilePath_def readConfDir_def after_scan_def
      getRegepxByFormat_def ToLower_def lower_char_def Join_def Clean_def IsAbs_def)

text \<open>
  C8. With no explicit file, no configuration directory (neither the one of the flag nor
  the one of the environment exists), no \<^verbatim>\<open>config.json\<close> in the working directory and no
  configuration file named by the environment: when the home directory is \<^verbatim>\<open>/home/u\<close> the
  result is exactly \<^verbatim>\<open>/home/u/.xray/config.json\<close>, and when the home directory cannot be
  resolved the result is empty.
\<close>

theorem home_default_resolution:
  "configFiles fl = [] \<Longrightarrow> \<not> dirExists e (configDir fl) \<Longrightarrow>
   \<not> dirExists e (GetConfDirPath e) \<Longrightarrow>
   (\<forall>wd. Getwd e = Some wd \<longrightarrow> \<not> fileExists e (Join [wd, ''config.json''])) \<Longrightarrow>
   \<not> fileExists e (GetConfigurationPath e) \<Longrightarrow>
     (UserHomeDir e = Some ''/home/u'' \<longrightarrow>
        getConfigFilePath e fl verbose = Inr [''/home/u/.xray/config.json''])
   \<and> (UserHomeDir e = None \<longrightarrow> getConfigFilePath e fl verbose = Inr [])"
  by (auto simp: getConfigFilePath_def after_scan_def cwd_default_def home_default_def
      DefaultConfigFileLocation_def Join_def Clean_def IsAbs_def Abs_def
      split: option.splits)

theorem home_default_resolution_witness:
  "UserHomeDir plain_env = Some ''/home/u''
   \<and> getConfigFilePath plain_env (plain_flags\<lparr>configFiles := []\<rparr>) True =
       Inr [''/home/u/.xray/config.json'']
   \<and> getConfigFilePath (plain_env\<lparr>UserHomeDir := None\<rparr>) (plain_flags\<lparr>configFiles := []\<rparr>)
       True = Inr []"
  using home_default_resolution [of "plain_flags\<lparr>configFiles := []\<rparr>" plain_env True]
    home_default_resolution
      [of "plain_flags\<lparr>configFiles := []\<rparr>" "plain_env\<lparr>UserHomeDir := None\<rparr>" True]
  by (simp add: plain_flags_def plain_env_def dirExists_def fileExists_def)

subsection \<open>The filter of the directory scan\<close>

text \<open>
  C9, as amended. The filter of the directory scan follows the extension table on the
  names whose part before the last dot, the stem, has at least one character and no line
  feed: under a format flag such a name matches exactly when its extension is in the row
  that the flag selects (json: \<^verbatim>\<open>json\<close>, \<^verbatim>\<open>jsonc\<close>; toml: \<^verbatim>\<open>toml\<close>; yaml: \<^verbatim>\<open>yaml\<close>, \<^verbatim>\<open>yml\<close>; auto:
  all five), and a name without such a stem matches under no flag. A name that does not
  end in a dot and one of the five extensions matches under no flag; \<^verbatim>\<open>c.yamlx\<close> is one. The
  scan of a directory that can be listed appends exactly the names that match, joined to
  the directory and in the order of the listing.
\<close>

theorem scan_filter_follows_extension_table:
  "(MatchString (getRegepxByFormat fl) name \<longleftrightarrow>
     (\<exists>stem ext. name = stem @ ''.'' @ ext \<and> stem \<noteq> [] \<and> CHR 0x0A \<notin> set stem
        \<and> ext \<in> set (spec_extensions (selected_format fl))))
   \<and> (MatchString (getRegepxByFormat fl) name \<longrightarrow>
        (\<exists>stem. \<exists>ext \<in> set (spec_extensions Auto). name = stem @ ''.'' @ ext))
   \<and> \<not> MatchString (getRegepxByFormat fl) ''c.yamlx''
   \<and> (\<forall>names. ReadDir e dirPath = Some names \<longrightarrow>
        readConfDir e fl dirPath cfs =
          Inr (cfs @ map (\<lambda>f. Join [dirPath, f])
                 (filter (\<lambda>f. \<exists>stem ext. f = stem @ ''.'' @ ext \<and> stem \<noteq> []
                            \<and> CHR 0x0A \<notin> set stem
                            \<and> ext \<in> set (spec_extensions (selected_format fl))) names)))"
proof -
  have sub: "set (spec_extensions (selected_format fl)) \<subseteq> set (spec_extensions Auto)"
    by (cases "selected_format fl") auto
  have no: "\<not> MatchString (getRegepxByFormat fl) ''c.yamlx''"
    by (simp add: getRegepxByFormat_def Let_def)
  have pred: "MatchString (getRegepxByFormat fl) =
      (\<lambda>f. \<exists>stem ext. f = stem @ ''.'' @ ext \<and> stem \<noteq> [] \<and> CHR 0x0A \<notin> set stem
                \<and> ext \<in> set (spec_extensions (selected_format fl)))"
    by (rule ext) (rule match_patterns)
  have scan: "\<forall>names. ReadDir e dirPath = Some names \<longrightarrow>
        readConfDir e fl dirPath cfs =
          Inr (cfs @ map (\<lambda>f. Join [dirPath, f])
                 (filter (\<lambda>f. \<exists>stem ext. f = stem @ ''.'' @ ext \<and> stem \<noteq> []
                            \<and> CHR 0x0A \<notin> set stem
                            \<and> ext \<in> set (spec_extensions (selected_format fl))) names))"
    using pred by (simp add: readConfDir_def scan_entries_filter)
  have first: "MatchString (getRegepxByFormat fl) name \<longleftrightarrow>
     (\<exists>stem ext. name = stem @ ''.'' @ ext \<and> stem \<noteq> [] \<and> CHR 0x0A \<notin> set stem
        \<and> ext \<in> set (spec_extensions (selected_format fl)))"
    by (rule match_patterns)
  have second: "MatchString (getRegepxByFormat fl) name \<longrightarrow>
        (\<exists>stem. \<exists>ext \<in> set (spec_extensions Auto). name = stem @ ''.'' @ ext)"
    using sub first by blast
  show ?thesis using first second no scan by (intro conjI)
qed


theorem scan_filter_follows_extension_table_witness:
  "selected_format (plain_flags\<lparr>format := ''JSON''\<rparr>) = Json
   \<and> MatchString (getRegepxByFormat (plain_flags\<lparr>format := ''JSON''\<rparr>)) ''a.jsonc''
   \<and> (\<exists>stem ext. ''a.jsonc'' = stem @ ''.'' @ ext \<and> stem \<noteq> [] \<and> CHR 0x0A \<notin> set stem
         \<and> ext \<in> set (spec_extensions Json))
   \<and> \<not> MatchString (getRegepxByFormat (plain_flags\<lparr>format := ''JSON''\<rparr>)) ''c.yamlx''
   \<and> ReadDir (dir_env (Some [''a.jsonc'', ''b.toml'', ''c.yamlx''])) ''/etc/xray''
       = Some [''a.jsonc'', ''b.toml'', ''c.yamlx'']
   \<and> readConfDir (dir_env (Some [''a.jsonc'', ''b.toml'', ''c.yamlx'']))
        (plain_flags\<lparr>format := ''JSON''\<rparr>) ''/etc/xray'' [] = Inr [''/etc/xray/a.jsonc'']"
  using scan_filter_follows_extension_table [of "plain_flags\<lparr>format := ''JSON''\<rparr>" "''a.jsonc''"
      "dir_env (Some [''a.jsonc'', ''b.toml'', ''c.yamlx''])" "''/etc/xray''" "[]"]
  by (simp add: plain_flags_def plain_env_def dir_env_def selected_format_def
      getRegepxByFormat_def readConfDir_def ToLower_def lower_char_def
      Join_def Clean_def IsAbs_def)


text \<open>
  C9 as stated fails: under the flag \<^verbatim>\<open>json\<close> the name made of \<^verbatim>\<open>a\<close>, a line feed, \<^verbatim>\<open>b\<close> and
  \<^verbatim>\<open>.json\<close> ends in \<^verbatim>\<open>.json\<close> and is not matched, so the scan of a directory that holds it
  selects nothing; the name \<^verbatim>\<open>.json\<close> is not matched either.
\<close>

theorem json_name_with_line_feed_not_selected:
  "\<not> MatchString (getRegepxByFormat (plain_flags\<lparr>format := ''json''\<rparr>))
       ([CHR ''a'', CHR 0x0A, CHR ''b''] @ ''.json'')
   \<and> readConfDir (dir_env (Some [[CHR ''a'', CHR 0x0A, CHR ''b''] @ ''.json'']))
        (plain_flags\<lparr>format := ''json''\<rparr>) ''/etc/xray'' [] = Inr []
   \<and> \<not> MatchString (getRegepxByFormat (plain_flags\<lparr>format := ''json''\<rparr>)) ''.json''"
  by (simp add: plain_flags_def plain_env_def dir_env_def getRegepxByFormat_def
      readConfDir_def ToLower_def lower_char_def)

text \<open>
  C10. A name that is only a dot and an extension, with nothing before the dot (such as
  \<^verbatim>\<open>.json\<close> or \<^verbatim>\<open>.yaml\<close>), matches under no format flag: the patterns ask for at least one
  character before the last dot.
\<close>

theorem bare_extension_never_matches:
  "CHR ''.'' \<notin> set ext \<Longrightarrow> \<not> MatchString (getRegepxByFormat fl) (''.'' @ ext)"
proof
  assume nodot: "CHR ''.'' \<notin> set ext"
    and "MatchString (getRegepxByFormat fl) (''.'' @ ext)"
  then obtain stem e where eq: "''.'' @ ext = stem @ ''.'' @ e" and ne: "stem \<noteq> []"
    unfolding match_patterns by blast
  from ne obtain c cs where "stem = c # cs" by (cases stem) auto
  with eq have "ext = cs @ ''.'' @ e" by simp
  with nodot show False by simp
qed

theorem bare_extension_never_matches_witness:
  "CHR ''.'' \<notin> set ''json''
   \<and> \<not> MatchString (getRegepxByFormat plain_flags) ''.json''
   \<and> \<not> MatchString (getRegepxByFormat (plain_flags\<lparr>format := ''yaml''\<rparr>)) ''.yaml''"
  using bare_extension_never_matches [of "''json''" plain_flags]
    bare_extension_never_matches [of "''yaml''" "plain_flags\<lparr>format := ''yaml''\<rparr>"]
  by simp

subsection \<open>The life cycle: the shape of a run\<close>

text \<open>Which calls the parts of a run can make, and one equation for each way through
  \<^verbatim>\<open>executeRun\<close>.\<close>

lemma listeners_calls:
  "c \<in> set (fst (listeners fl st evs)) \<Longrightarrow>
     c \<in> {CloseEnd, DisableSysProxy (sysProxyDevice fl),
          EnableSysProxy (sysProxyDevice fl) (sysProxyPort fl),
          SetIcon IconOne, SetIcon IconData, ItemSetTitle ''Enable'', ItemSetTitle ''Disable''}"
  by (induction fl st evs rule: listeners.induct)
     (auto simp: toggle_def split: prod.splits if_splits)

lemma listeners_end:
  "listeners fl st evs = (cs, w) \<Longrightarrow>
     (w = EndClosed \<longrightarrow> (\<exists>ds. cs = ds @ [CloseEnd] \<and> CloseEnd \<notin> set ds))
   \<and> (w \<noteq> EndClosed \<longrightarrow> CloseEnd \<notin> set cs)"
proof (induction fl st evs arbitrary: cs w rule: listeners.induct)
  case (4 fl st evs)
  obtain ts st' where t: "toggle fl st = (ts, st')" by (cases "toggle fl st")
  obtain ds w' where l: "listeners fl st' evs = (ds, w')" by (cases "listeners fl st' evs")
  from t have nots: "CloseEnd \<notin> set ts" by (auto simp: toggle_def split: if_splits)
  from "4.prems" t l have cs: "cs = ts @ ds" and w: "w = w'" by auto
  from "4.IH" [OF t [symmetric] l] nots cs w show ?case by auto
qed auto

lemma startXray_calls:
  "c \<in> set (fst (startXray e fl)) \<Longrightarrow> (\<exists>f fs. c = CallLoadConfig f fs) \<or> (\<exists>cfg. c = CallNew cfg)"
  by (auto simp: startXray_def split: sum.splits option.splits)

lemma dumpConfig_calls:
  "c \<in> set (fst (dumpConfig e fl)) \<Longrightarrow> \<exists>fs. c = CallGetMergedConfig fs"
  by (auto simp: dumpConfig_def split: sum.splits option.splits)

lemma executeRun_dump:
  "dump fl \<Longrightarrow> dumpConfig e fl = (cs, x) \<Longrightarrow>
     executeRun e fl evs =
       \<lparr>trace = entry_calls e fl @ cs, ending = Exited (case x of Inl (Exit c) \<Rightarrow> c | Inr c \<Rightarrow> c)\<rparr>"
  by (auto simp: executeRun_def Let_def split: sum.splits exit.splits)

lemma executeRun_abort:
  "\<not> dump fl \<Longrightarrow> startXray e fl = (cs, Inl (Exit c)) \<Longrightarrow>
     executeRun e fl evs = \<lparr>trace = entry_calls e fl @ cs, ending = Exited c\<rparr>"
  by (auto simp: executeRun_def Let_def)

lemma executeRun_build_error:
  "\<not> dump fl \<Longrightarrow> startXray e fl = (cs, Inr (Inl err)) \<Longrightarrow>
     executeRun e fl evs = \<lparr>trace = entry_calls e fl @ cs, ending = Exited 23\<rparr>"
  by (auto simp: executeRun_def Let_def)

lemma executeRun_test:
  "\<not> dump fl \<Longrightarrow> startXray e fl = (cs, Inr (Inr srv)) \<Longrightarrow> test fl \<Longrightarrow>
     executeRun e fl evs = \<lparr>trace = entry_calls e fl @ cs, ending = Exited 0\<rparr>"
  by (auto simp: executeRun_def Let_def)

lemma executeRun_start_error:
  "\<not> dump fl \<Longrightarrow> startXray e fl = (cs, Inr (Inr srv)) \<Longrightarrow> \<not> test fl \<Longrightarrow> start_fails srv \<Longrightarrow>
     executeRun e fl evs = \<lparr>trace = entry_calls e fl @ cs @ [ServerStart], ending = Exited (- 1)\<rparr>"
  by (auto simp: executeRun_def Let_def)

lemma executeRun_serve:
  "\<not> dump fl \<Longrightarrow> startXray e fl = (cs, Inr (Inr srv)) \<Longrightarrow> \<not> test fl \<Longrightarrow> \<not> start_fails srv \<Longrightarrow>
   listeners fl 1 evs = (ls, w) \<Longrightarrow>
     executeRun e fl evs =
       \<lparr>trace = entry_calls e fl @ cs @ [ServerStart] @ arm @ ls
                 @ (if w = EndClosed then [RecvEnd, ServerClose] @ entry_deferred e fl else []),
        ending = (case w of EndClosed \<Rightarrow> Returned | ProcessExit c \<Rightarrow> Exited c | Pending \<Rightarrow> Waiting)\<rparr>"
  by (auto simp: executeRun_def Let_def serve_def prepend_def split: waited.splits)


lemma Inl_exit: "getConfigFilePath e fl verbose = Inl x \<Longrightarrow> x = Exit 1"
  by (auto simp: getConfigFilePath_def readConfDir_def split: if_splits option.splits sum.splits)

lemma entry_calls_mem:
  "c \<in> set (entry_calls e fl) \<Longrightarrow> c = EnableSysProxy (sysProxyDevice fl) (sysProxyPort fl)"
  by (auto simp: entry_calls_def split: if_splits)

lemma entry_deferred_mem:
  "c \<in> set (entry_deferred e fl) \<Longrightarrow> c = DisableSysProxy (sysProxyDevice fl)"
  by (auto simp: entry_deferred_def split: if_splits)

lemma executeRun_cases [consumes 0, case_names dumped aborted build_error tested start_error served]:
  obtains
    (dumped) cs x where "dump fl" "dumpConfig e fl = (cs, x)"
      "executeRun e fl evs =
         \<lparr>trace = entry_calls e fl @ cs,
          ending = Exited (case x of Inl (Exit c) \<Rightarrow> c | Inr c \<Rightarrow> c)\<rparr>"
  | (aborted) cs c where "\<not> dump fl" "startXray e fl = (cs, Inl (Exit c))"
      "executeRun e fl evs = \<lparr>trace = entry_calls e fl @ cs, ending = Exited c\<rparr>"
  | (build_error) cs err where "\<not> dump fl" "startXray e fl = (cs, Inr (Inl err))"
      "executeRun e fl evs = \<lparr>trace = entry_calls e fl @ cs, ending = Exited 23\<rparr>"
  | (tested) cs srv where "\<not> dump fl" "test fl" "startXray e fl = (cs, Inr (Inr srv))"
      "executeRun e fl evs = \<lparr>trace = entry_calls e fl @ cs, ending = Exited 0\<rparr>"
  | (start_error) cs srv where "\<not> dump fl" "\<not> test fl" "startXray e fl = (cs, Inr (Inr srv))"
      "start_fails srv"
      "executeRun e fl evs =
         \<lparr>trace = entry_calls e fl @ cs @ [ServerStart], ending = Exited (- 1)\<rparr>"
  | (served) cs srv ls w where "\<not> dump fl" "\<not> test fl" "startXray e fl = (cs, Inr (Inr srv))"
      "\<not> start_fails srv" "listeners fl 1 evs = (ls, w)"
      "executeRun e fl evs =
         \<lparr>trace = entry_calls e fl @ cs @ [ServerStart] @ arm @ ls
                   @ (if w = EndClosed then [RecvEnd, ServerClose] @ entry_deferred e fl else []),
          ending = (case w of EndClosed \<Rightarrow> Returned | ProcessExit c \<Rightarrow> Exited c
                    | Pending \<Rightarrow> Waiting)\<rparr>"
proof (cases "dump fl")
  case True
  obtain cs x where "dumpConfig e fl = (cs, x)" by (cases "dumpConfig e fl")
  with True show ?thesis using dumped executeRun_dump by blast
next
  case False
  obtain cs x where sx: "startXray e fl = (cs, x)" by (cases "startXray e fl")
  show ?thesis
  proof (cases x)
    case (Inl a)
    then obtain c where "x = Inl (Exit c)" by (cases a) auto
    with False sx show ?thesis using aborted executeRun_abort by blast
  next
    case (Inr b)
    show ?thesis
    proof (cases b)
      case (Inl err)
      with False sx Inr show ?thesis using build_error executeRun_build_error by blast
    next
      case (Inr srv)
      obtain ls w where lw: "listeners fl 1 evs = (ls, w)" by (cases "listeners fl 1 evs")
      from Inr \<open>x = Inr b\<close> sx have sx': "startXray e fl = (cs, Inr (Inr srv))" by simp
      show ?thesis
      proof (cases "test fl")
        case True
        with False sx' show ?thesis using tested executeRun_test by blast
      next
        case nt: False
        show ?thesis
        proof (cases "start_fails srv")
          case True
          with False nt sx' show ?thesis using start_error executeRun_start_error by blast
        next
          case ns: False
          from executeRun_serve [OF False sx' nt ns lw] False nt sx' ns lw
          show ?thesis using served by blast
        qed
      qed
    qed
  qed
qed

lemmas run_defs = executeRun_def Let_def entry_calls_def entry_deferred_def dumpConfig_def
  startXray_def getConfigFormat_def serve_def prepend_def arm_def toggle_def
  getConfigFilePath_def readConfDir_def after_scan_def dirExists_def
  plain_env_def plain_flags_def dir_env_def

subsection \<open>Exit codes\<close>

text \<open>
  C1, as amended. A failed merge in dump mode and a failure of \<^verbatim>\<open>startXray\<close> (the
  configuration cannot be loaded or the server cannot be created) end the process with
  code 23, and a failed scan of the configuration directory ends it with code 1 (the
  \<^verbatim>\<open>log.Fatalln\<close> of \<^verbatim>\<open>readConfDir\<close>); in all these runs \<^verbatim>\<open>Start\<close> is not attempted. A failure of
  \<^verbatim>\<open>Start\<close> itself ends the process with code -1, which is neither 0 nor 23.
\<close>

theorem exit_code_discipline:
  "(\<forall>files. dump fl \<and> getConfigFilePath e fl False = Inr files \<and> GetMergedConfig e files = None
       \<longrightarrow> ending (executeRun e fl evs) = Exited 23
           \<and> ServerStart \<notin> set (trace (executeRun e fl evs)))
   \<and> (\<forall>files. \<not> dump fl \<and> getConfigFilePath e fl True = Inr files
         \<and> (LoadConfig e (getConfigFormat e fl) files = None
            \<or> (\<exists>c. LoadConfig e (getConfigFormat e fl) files = Some c \<and> New e c = None))
       \<longrightarrow> ending (executeRun e fl evs) = Exited 23
           \<and> ServerStart \<notin> set (trace (executeRun e fl evs)))
   \<and> (\<forall>x. getConfigFilePath e fl (\<not> dump fl) = Inl x
       \<longrightarrow> ending (executeRun e fl evs) = Exited 1
           \<and> ServerStart \<notin> set (trace (executeRun e fl evs)))
   \<and> (\<forall>files c srv. \<not> dump fl \<and> \<not> test fl \<and> getConfigFilePath e fl True = Inr files
         \<and> LoadConfig e (getConfigFormat e fl) files = Some c \<and> New e c = Some srv
         \<and> start_fails srv
       \<longrightarrow> ending (executeRun e fl evs) = Exited (- 1)
           \<and> ending (executeRun e fl evs) \<noteq> Exited 0
           \<and> ending (executeRun e fl evs) \<noteq> Exited 23)"
proof (intro conjI allI impI)
  fix files
  assume h: "dump fl \<and> getConfigFilePath e fl False = Inr files \<and> GetMergedConfig e files = None"
  then have "dumpConfig e fl = ([CallGetMergedConfig files], Inr 23)"
    by (simp add: dumpConfig_def)
  with h have r: "executeRun e fl evs =
      \<lparr>trace = entry_calls e fl @ [CallGetMergedConfig files], ending = Exited 23\<rparr>"
    by (simp add: executeRun_dump)
  show "ending (executeRun e fl evs) = Exited 23" by (simp add: r)
  show "ServerStart \<notin> set (trace (executeRun e fl evs))"
    by (auto simp: r dest: entry_calls_mem)
next
  fix files
  assume h: "\<not> dump fl \<and> getConfigFilePath e fl True = Inr files
         \<and> (LoadConfig e (getConfigFormat e fl) files = None
            \<or> (\<exists>c. LoadConfig e (getConfigFormat e fl) files = Some c \<and> New e c = None))"
  then obtain cs err where sx: "startXray e fl = (cs, Inr (Inl err))"
    by (auto simp: startXray_def)
  with h have r: "executeRun e fl evs = \<lparr>trace = entry_calls e fl @ cs, ending = Exited 23\<rparr>"
    by (simp add: executeRun_build_error)
  show "ending (executeRun e fl evs) = Exited 23" by (simp add: r)
  from sx have "ServerStart \<notin> set cs" using startXray_calls [of ServerStart e fl] by auto
  then show "ServerStart \<notin> set (trace (executeRun e fl evs))"
    by (auto simp: r dest: entry_calls_mem)
next
  fix x
  assume h: "getConfigFilePath e fl (\<not> dump fl) = Inl x"
  then have x: "x = Exit 1" by (rule Inl_exit)
  have r: "executeRun e fl evs = \<lparr>trace = entry_calls e fl, ending = Exited 1\<rparr>"
  proof (cases "dump fl")
    case True
    with h x have "dumpConfig e fl = ([], Inl (Exit 1))" by (simp add: dumpConfig_def)
    with True show ?thesis by (simp add: executeRun_dump)
  next
    case False
    with h x have "startXray e fl = ([], Inl (Exit 1))" by (simp add: startXray_def)
    with False show ?thesis by (simp add: executeRun_abort)
  qed
  show "ending (executeRun e fl evs) = Exited 1" by (simp add: r)
  show "ServerStart \<notin> set (trace (executeRun e fl evs))"
    by (auto simp: r dest: entry_calls_mem)
next
  fix files c srv
  assume h: "\<not> dump fl \<and> \<not> test fl \<and> getConfigFilePath e fl True = Inr files
         \<and> LoadConfig e (getConfigFormat e fl) files = Some c \<and> New e c = Some srv
         \<and> start_fails srv"
  then obtain cs where sx: "startXray e fl = (cs, Inr (Inr srv))"
    by (auto simp: startXray_def)
  with h have r: "executeRun e fl evs =
      \<lparr>trace = entry_calls e fl @ cs @ [ServerStart], ending = Exited (- 1)\<rparr>"
    by (simp add: executeRun_start_error)
  show "ending (executeRun e fl evs) = Exited (- 1)" by (simp add: r)
  show "ending (executeRun e fl evs) \<noteq> Exited 0" by (simp add: r)
  show "ending (executeRun e fl evs) \<noteq> Exited 23" by (simp add: r)
qed

theorem exit_code_discipline_witness:
  "ending (executeRun (plain_env\<lparr>GetMergedConfig := (\<lambda>fs. None)\<rparr>) (plain_flags\<lparr>dump := True\<rparr>) [])
     = Exited 23
   \<and> ending (executeRun (plain_env\<lparr>LoadConfig := (\<lambda>f fs. None)\<rparr>) plain_flags []) = Exited 23
   \<and> ending (executeRun (plain_env\<lparr>New := (\<lambda>c. None)\<rparr>) (plain_flags\<lparr>test := True\<rparr>) [])
       = Exited 23
   \<and> getConfigFilePath (dir_env None) (plain_flags\<lparr>configDir := ''/etc/xray''\<rparr>) True
       = Inl (Exit 1)
   \<and> ending (executeRun (dir_env None) (plain_flags\<lparr>configDir := ''/etc/xray''\<rparr>) []) = Exited 1
   \<and> ending (executeRun (plain_env\<lparr>New := (\<lambda>c. Some (Server True))\<rparr>) plain_flags [])
       = Exited (- 1)"
  using exit_code_discipline [of "plain_flags\<lparr>dump := True\<rparr>" "plain_env\<lparr>GetMergedConfig := (\<lambda>fs. None)\<rparr>" "[]"]
    exit_code_discipline [of plain_flags "plain_env\<lparr>LoadConfig := (\<lambda>f fs. None)\<rparr>" "[]"]
    exit_code_discipline [of "plain_flags\<lparr>test := True\<rparr>" "plain_env\<lparr>New := (\<lambda>c. None)\<rparr>" "[]"]
    exit_code_discipline [of "plain_flags\<lparr>configDir := ''/etc/xray''\<rparr>" "dir_env None" "[]"]
    exit_code_discipline [of plain_flags "plain_env\<lparr>New := (\<lambda>c. Some (Server True))\<rparr>" "[]"]
  by (simp add: getConfigFilePath_def readConfDir_def after_scan_def dirExists_def
      getConfigFormat_def plain_env_def plain_flags_def dir_env_def)

text \<open>
  C1 as stated fails for the directory scan: with \<^verbatim>\<open>-confdir /etc/xray\<close>, a directory that
  exists and cannot be listed, the process ends with code 1, not 23, before \<^verbatim>\<open>Start\<close>.
\<close>

theorem unreadable_confdir_exits_with_1:
  "ending (executeRun (dir_env None) (plain_flags\<lparr>configDir := ''/etc/xray''\<rparr>) []) = Exited 1
   \<and> ending (executeRun (dir_env None) (plain_flags\<lparr>configDir := ''/etc/xray''\<rparr>) [])
       \<noteq> Exited 23
   \<and> ServerStart
       \<notin> set (trace (executeRun (dir_env None) (plain_flags\<lparr>configDir := ''/etc/xray''\<rparr>) []))"
  by (simp add: run_defs)

subsection \<open>The modes\<close>

text \<open>
  C6. In dump mode \<^verbatim>\<open>Start\<close> is never called, nor is the server built: the only call into
  the engine is the merge of the resolved files. In test mode (the test flag without the
  dump flag) the server is built, by \<^verbatim>\<open>core.LoadConfig\<close> on the resolved files and \<^verbatim>\<open>core.New\<close>
  on the loaded configuration, and \<^verbatim>\<open>Start\<close> is never called. In run mode the server is built
  in the same way and \<^verbatim>\<open>Start\<close> is called on the handle that the build returns.
\<close>

theorem modes_and_engine_calls:
  "(dump fl \<longrightarrow>
      ServerStart \<notin> set (trace (executeRun e fl evs))
      \<and> (\<forall>f fs. CallLoadConfig f fs \<notin> set (trace (executeRun e fl evs)))
      \<and> (\<forall>c. CallNew c \<notin> set (trace (executeRun e fl evs)))
      \<and> (\<forall>files. getConfigFilePath e fl False = Inr files \<longrightarrow>
            CallGetMergedConfig files \<in> set (trace (executeRun e fl evs))))
   \<and> (\<not> dump fl \<and> test fl \<longrightarrow>
      ServerStart \<notin> set (trace (executeRun e fl evs))
      \<and> (\<forall>files. getConfigFilePath e fl True = Inr files \<longrightarrow>
            CallLoadConfig (getConfigFormat e fl) files \<in> set (trace (executeRun e fl evs))
            \<and> (\<forall>c. LoadConfig e (getConfigFormat e fl) files = Some c \<longrightarrow>
                  CallNew c \<in> set (trace (executeRun e fl evs)))))
   \<and> (\<not> dump fl \<and> \<not> test fl \<longrightarrow>
      (\<forall>files. getConfigFilePath e fl True = Inr files \<longrightarrow>
            CallLoadConfig (getConfigFormat e fl) files \<in> set (trace (executeRun e fl evs))
            \<and> (\<forall>c. LoadConfig e (getConfigFormat e fl) files = Some c \<longrightarrow>
                  CallNew c \<in> set (trace (executeRun e fl evs))
                  \<and> (\<forall>srv. New e c = Some srv \<longrightarrow>
                        ServerStart \<in> set (trace (executeRun e fl evs))))))"
proof (intro conjI impI)
  assume d: "dump fl"
  obtain cs x where dc: "dumpConfig e fl = (cs, x)" by (cases "dumpConfig e fl")
  have r: "trace (executeRun e fl evs) = entry_calls e fl @ cs"
    by (simp add: executeRun_dump [OF d dc])
  have cs: "\<And>c. c \<in> set cs \<Longrightarrow> \<exists>fs. c = CallGetMergedConfig fs"
    using dumpConfig_calls [of _ e fl] dc by simp
  show "ServerStart \<notin> set (trace (executeRun e fl evs))"
    using cs by (auto simp: r dest: entry_calls_mem)
  show "\<forall>f fs. CallLoadConfig f fs \<notin> set (trace (executeRun e fl evs))"
    using cs by (auto simp: r dest: entry_calls_mem)
  show "\<forall>c. CallNew c \<notin> set (trace (executeRun e fl evs))"
    using cs by (auto simp: r dest: entry_calls_mem)
  show "\<forall>files. getConfigFilePath e fl False = Inr files \<longrightarrow>
            CallGetMergedConfig files \<in> set (trace (executeRun e fl evs))"
    using dc by (auto simp: r dumpConfig_def split: option.splits)
next
  assume h: "\<not> dump fl \<and> test fl"
  have sx: "\<And>c. c \<in> set (fst (startXray e fl)) \<Longrightarrow> c \<noteq> ServerStart"
    using startXray_calls by blast
  show "ServerStart \<notin> set (trace (executeRun e fl evs))"
    using h sx by (cases rule: executeRun_cases [of fl e evs]) (auto dest: entry_calls_mem)
  show "\<forall>files. getConfigFilePath e fl True = Inr files \<longrightarrow>
            CallLoadConfig (getConfigFormat e fl) files \<in> set (trace (executeRun e fl evs))
            \<and> (\<forall>c. LoadConfig e (getConfigFormat e fl) files = Some c \<longrightarrow>
                  CallNew c \<in> set (trace (executeRun e fl evs)))"
    using h by (cases rule: executeRun_cases [of fl e evs])
      (auto simp: startXray_def split: option.splits)
next
  assume h: "\<not> dump fl \<and> \<not> test fl"
  show "\<forall>files. getConfigFilePath e fl True = Inr files \<longrightarrow>
            CallLoadConfig (getConfigFormat e fl) files \<in> set (trace (executeRun e fl evs))
            \<and> (\<forall>c. LoadConfig e (getConfigFormat e fl) files = Some c \<longrightarrow>
                  CallNew c \<in> set (trace (executeRun e fl evs))
                  \<and> (\<forall>srv. New e c = Some srv \<longrightarrow>
                        ServerStart \<in> set (trace (executeRun e fl evs))))"
    using h by (cases rule: executeRun_cases [of fl e evs])
      (auto simp: startXray_def split: option.splits)
qed

theorem modes_and_engine_calls_witness:
  "dump (plain_flags\<lparr>dump := True\<rparr>)
   \<and> ServerStart \<notin> set (trace (executeRun plain_env (plain_flags\<lparr>dump := True\<rparr>) []))
   \<and> CallGetMergedConfig [''a.json'']
        \<in> set (trace (executeRun plain_env (plain_flags\<lparr>dump := True\<rparr>) []))
   \<and> test (plain_flags\<lparr>test := True\<rparr>)
   \<and> ServerStart \<notin> set (trace (executeRun plain_env (plain_flags\<lparr>test := True\<rparr>) []))
   \<and> CallNew ''cfg'' \<in> set (trace (executeRun plain_env (plain_flags\<lparr>test := True\<rparr>) []))
   \<and> CallNew ''cfg'' \<in> set (trace (executeRun plain_env plain_flags []))
   \<and> ServerStart \<in> set (trace (executeRun plain_env plain_flags []))"
  using modes_and_engine_calls [of "plain_flags\<lparr>dump := True\<rparr>" plain_env "[]"]
    modes_and_engine_calls [of "plain_flags\<lparr>test := True\<rparr>" plain_env "[]"]
    modes_and_engine_calls [of plain_flags plain_env "[]"]
  by (simp add: getConfigFilePath_def readConfDir_def after_scan_def dirExists_def
      getConfigFormat_def plain_env_def plain_flags_def dir_env_def)

subsection \<open>The system proxy and the tray\<close>




subsection \<open>Shutdown\<close>

text \<open>
  What holds of the two ways in which a running server ends. \<^verbatim>\<open>Close\<close> is called only in a
  run that returns, after \<^verbatim>\<open>Start\<close>. A run that returns (the signal came first) closes
  \<^verbatim>\<open>end\<close> once, resumes the main flow once and then runs the deferred calls: \<^verbatim>\<open>Close\<close> once
  and, on \<^verbatim>\<open>darwin\<close>, the disabling of the proxy once. Without a signal \<^verbatim>\<open>end\<close> is never
  closed. A click on quit that comes before any signal ends the process with code 0 and
  none of the deferred calls.
\<close>

lemma listeners_no_signal:
  "OsSignal \<notin> set evs \<Longrightarrow> snd (listeners fl st evs) \<noteq> EndClosed"
  by (induction fl st evs rule: listeners.induct) (auto split: prod.splits)

lemma listeners_quit_first:
  "QuitClicked \<in> set evs \<Longrightarrow> OsSignal \<notin> set (takeWhile (\<lambda>x. x \<noteq> QuitClicked) evs) \<Longrightarrow>
     snd (listeners fl st evs) = ProcessExit 0"
  by (induction fl st evs rule: listeners.induct) (auto split: prod.splits)

lemma close_needs_start:
  "ServerClose \<in> set (trace (executeRun e fl evs)) \<Longrightarrow>
     ending (executeRun e fl evs) = Returned \<and> ServerStart \<in> set (trace (executeRun e fl evs))"
proof (cases rule: executeRun_cases [of fl e evs])
  case (served cs srv ls w)
  assume "ServerClose \<in> set (trace (executeRun e fl evs))"
  moreover have "ServerClose \<notin> set cs" using startXray_calls [of ServerClose e fl] served by auto
  moreover have "ServerClose \<notin> set ls" using listeners_calls [of ServerClose fl 1 evs] served by auto
  ultimately show ?thesis using served
    by (auto simp: arm_def dest: entry_calls_mem split: if_splits)
qed (use startXray_calls [of ServerClose e fl] dumpConfig_calls [of ServerClose e fl]
     in \<open>auto dest: entry_calls_mem\<close>)

lemma returned_shape:
  "ending (executeRun e fl evs) = Returned \<Longrightarrow>
     \<exists>pre. trace (executeRun e fl evs) =
             pre @ [CloseEnd, RecvEnd, ServerClose] @ entry_deferred e fl
           \<and> ServerStart \<in> set pre
           \<and> CloseEnd \<notin> set pre \<and> RecvEnd \<notin> set pre \<and> ServerClose \<notin> set pre"
proof (cases rule: executeRun_cases [of fl e evs])
  case (served cs srv ls w)
  assume "ending (executeRun e fl evs) = Returned"
  with served have w: "w = EndClosed" by (auto split: waited.splits)
  with listeners_end [OF served(5)] obtain ds where ds: "ls = ds @ [CloseEnd]" "CloseEnd \<notin> set ds"
    by auto
  have lsc: "\<And>c. c \<in> set ds \<Longrightarrow> c \<noteq> RecvEnd \<and> c \<noteq> ServerClose"
    using listeners_calls [of _ fl 1 evs] served(5) ds by auto
  have csc: "\<And>c. c \<in> set cs \<Longrightarrow> c \<noteq> RecvEnd \<and> c \<noteq> ServerClose \<and> c \<noteq> CloseEnd"
    using startXray_calls [of _ e fl] served(3) by auto
  let ?pre = "entry_calls e fl @ cs @ [ServerStart] @ arm @ ds"
  have "trace (executeRun e fl evs) = ?pre @ [CloseEnd, RecvEnd, ServerClose] @ entry_deferred e fl"
    by (simp add: served w ds)
  moreover have "ServerStart \<in> set ?pre" by simp
  moreover have "CloseEnd \<notin> set ?pre \<and> RecvEnd \<notin> set ?pre \<and> ServerClose \<notin> set ?pre"
    using ds(2) lsc csc by (auto simp: arm_def dest: entry_calls_mem)
  ultimately show ?thesis by blast
qed auto

lemma returned_closes_once:
  assumes "ending (executeRun e fl evs) = Returned"
  shows "count_list (trace (executeRun e fl evs)) ServerClose = 1"
    and "count_list (trace (executeRun e fl evs)) CloseEnd = 1"
    and "count_list (trace (executeRun e fl evs)) RecvEnd = 1"
proof -
  from returned_shape [OF assms] obtain pre where
    t: "trace (executeRun e fl evs) = pre @ [CloseEnd, RecvEnd, ServerClose] @ entry_deferred e fl"
    and p: "CloseEnd \<notin> set pre" "RecvEnd \<notin> set pre" "ServerClose \<notin> set pre" by blast
  have d: "count_list (entry_deferred e fl) ServerClose = 0"
      "count_list (entry_deferred e fl) CloseEnd = 0"
      "count_list (entry_deferred e fl) RecvEnd = 0"
    by (simp_all add: entry_deferred_def)
  show "count_list (trace (executeRun e fl evs)) ServerClose = 1"
    using p d by (simp add: t count_list_0_iff)
  show "count_list (trace (executeRun e fl evs)) CloseEnd = 1"
    using p d by (simp add: t count_list_0_iff)
  show "count_list (trace (executeRun e fl evs)) RecvEnd = 1"
    using p d by (simp add: t count_list_0_iff)
qed

lemma end_closed_only_by_signal:
  "OsSignal \<notin> set evs \<Longrightarrow>
     ending (executeRun e fl evs) \<noteq> Returned
     \<and> CloseEnd \<notin> set (trace (executeRun e fl evs))
     \<and> RecvEnd \<notin> set (trace (executeRun e fl evs))"
proof (cases rule: executeRun_cases [of fl e evs])
  case (served cs srv ls w)
  assume "OsSignal \<notin> set evs"
  with listeners_no_signal [of evs fl 1] served have w: "w \<noteq> EndClosed" by auto
  with listeners_end [OF served(5)] have "CloseEnd \<notin> set ls" by simp
  moreover have "RecvEnd \<notin> set ls" using listeners_calls [of RecvEnd fl 1 evs] served by auto
  moreover have "CloseEnd \<notin> set cs \<and> RecvEnd \<notin> set cs"
    using startXray_calls [of _ e fl] served(3) by auto
  ultimately show ?thesis using served w
    by (auto simp: arm_def dest: entry_calls_mem split: waited.splits)
qed (use startXray_calls [of _ e fl] dumpConfig_calls [of _ e fl]
     in \<open>auto dest: entry_calls_mem\<close>)

lemma quit_before_signal_skips_cleanup:
  assumes "QuitClicked \<in> set evs"
    and "OsSignal \<notin> set (takeWhile (\<lambda>x. x \<noteq> QuitClicked) evs)"
  shows "ending (executeRun e fl evs) \<noteq> Returned"
    and "ServerClose \<notin> set (trace (executeRun e fl evs))"
proof -
  have q: "snd (listeners fl 1 evs) = ProcessExit 0"
    using assms by (rule listeners_quit_first)
  show r: "ending (executeRun e fl evs) \<noteq> Returned"
    using q by (cases rule: executeRun_cases [of fl e evs]) auto
  show "ServerClose \<notin> set (trace (executeRun e fl evs))"
    using r close_needs_start by blast
qed

text \<open>
  C2. \<^verbatim>\<open>Close\<close> is to be invoked exactly once on every exit path after a successful
  \<^verbatim>\<open>Start\<close>, the shutdown by a click on quit included. The code does not do so: with the
  server started and a click on quit, \<^verbatim>\<open>background\<close> calls \<^verbatim>\<open>os.Exit(0)\<close>, the deferred
  \<^verbatim>\<open>server.Close()\<close> does not run and the process ends with code 0. The shutdown by a signal
  calls \<^verbatim>\<open>Close\<close> once.
\<close>

theorem tray_quit_skips_server_close:
  "ServerStart \<in> set (trace (executeRun plain_env plain_flags [QuitClicked]))
   \<and> count_list (trace (executeRun plain_env plain_flags [QuitClicked])) ServerClose = 0
   \<and> ending (executeRun plain_env plain_flags [QuitClicked]) = Exited 0
   \<and> count_list (trace (executeRun plain_env plain_flags [OsSignal])) ServerClose = 1"
  by (simp add: run_defs)

text \<open>
  C3. Every shutdown of a running server is to disable the system proxy exactly once.
  The code does not do so at a click on quit: on \<^verbatim>\<open>darwin\<close>, with the proxy enabled at entry
  and the server started, the run ends with code 0 and \<^verbatim>\<open>disableSysProxy\<close> is never called.
  The shutdown by a signal ends with that call.
\<close>

theorem tray_quit_skips_proxy_disable:
  "EnableSysProxy ''Wi-Fi'' ''19800''
     \<in> set (trace (executeRun plain_env plain_flags [QuitClicked]))
   \<and> count_list (trace (executeRun plain_env plain_flags [QuitClicked]))
       (DisableSysProxy ''Wi-Fi'') = 0
   \<and> ending (executeRun plain_env plain_flags [QuitClicked]) = Exited 0
   \<and> last (trace (executeRun plain_env plain_flags [OsSignal])) = DisableSysProxy ''Wi-Fi''"
  by (simp add: run_defs)

text \<open>
  C5. The signal listener and the quit handler are to raise the same termination event,
  on which the main flow waits. In the code only the signal listener closes \<^verbatim>\<open>end\<close>: at a
  click on quit the process ends with code 0, \<^verbatim>\<open>end\<close> is not closed and the wait of the main
  flow never completes. At a signal \<^verbatim>\<open>end\<close> is closed and the wait completes.
\<close>

theorem tray_quit_does_not_raise_end:
  "CloseEnd \<notin> set (trace (executeRun plain_env plain_flags [QuitClicked]))
   \<and> RecvEnd \<notin> set (trace (executeRun plain_env plain_flags [QuitClicked]))
   \<and> ending (executeRun plain_env plain_flags [QuitClicked]) = Exited 0
   \<and> CloseEnd \<in> set (trace (executeRun plain_env plain_flags [OsSignal]))
   \<and> RecvEnd \<in> set (trace (executeRun plain_env plain_flags [OsSignal]))"
  by (simp add: run_defs)

end
